theory Spec2Isabelle
  imports Complex_Main "HOL-Library.Multiset" "HOL-Library.AList"
begin

chapter \<open>The program\<close>

section \<open>Python values used by the partitioning engine\<close>

text \<open>
  The engine is Python. Its integers are unbounded (\<open>int\<close>), its true division \<open>/\<close>
  yields a float, which is modelled by an exact \<open>real\<close>; strings are ASCII
  \<open>string\<close>s. An exception is a value of \<open>py_error\<close>; a computation that may raise
  returns \<open>py_error + 'a\<close>.
\<close>

datatype py_error = ZeroDivisionError | IndexError | TypeError | ParseError | DatabaseError

text \<open>\<open>str(n)\<close> for an integer: decimal digits, with a minus sign when negative.\<close>

fun str_nat :: "nat \<Rightarrow> string" where
  "str_nat n =
     (if n < 10 then [''0123456789'' ! n]
      else str_nat (n div 10) @ [''0123456789'' ! (n mod 10)])"

definition str_int :: "int \<Rightarrow> string" where
  "str_int i = (if i < 0 then ''-'' @ str_nat (nat (- i)) else str_nat (nat i))"

text \<open>
  \<open>int(a / b)\<close> for integers \<open>a\<close> and \<open>b > 0\<close>: the quotient truncated towards
  zero (the rounding of the float quotient is not modelled; where it is used the
  result is clamped to at most 32, far below the values it could change).
\<close>

definition int_of_truediv :: "int \<Rightarrow> int \<Rightarrow> int" where
  "int_of_truediv a b = (if 0 \<le> a then a div b else - ((- a) div b))"

text \<open>\<open>d.get(k, default)\<close>, given the optional value under the key.\<close>

definition get_or :: "'a option \<Rightarrow> 'a \<Rightarrow> 'a" where
  "get_or v d = (case v of None \<Rightarrow> d | Some x \<Rightarrow> x)"

text \<open>
  A dict whose order of keys is observed (a \<open>Counter\<close>, or a dict that is sorted
  afterwards) is an association list in insertion order: \<open>d[k] = v\<close> is
  \<open>AList.update k v d\<close>, which keeps the position of a key that is already there. A
  dict that is only looked up is a map.
\<close>

definition counter_add :: "('k \<times> int) list \<Rightarrow> 'k \<Rightarrow> ('k \<times> int) list" where
  "counter_add c k = AList.update k (get_or (map_of c k) 0 + 1) c"

definition Counter :: "'k list \<Rightarrow> ('k \<times> int) list" where
  "Counter xs = fold (\<lambda>k c. counter_add c k) xs []"


text \<open>
  \<open>s.upper()\<close> on ASCII text, \<open>s.find(sub)\<close> (\<open>None\<close> stands for -1) and
  \<open>s.strip(chars)\<close>.
\<close>

definition upper_char :: "char \<Rightarrow> char" where
  "upper_char c =
     (case map_of (zip ''abcdefghijklmnopqrstuvwxyz'' ''ABCDEFGHIJKLMNOPQRSTUVWXYZ'') c of
        None \<Rightarrow> c | Some u \<Rightarrow> u)"

definition upper :: "string \<Rightarrow> string" where
  "upper s = map upper_char s"

fun str_find :: "string \<Rightarrow> string \<Rightarrow> nat option" where
  "str_find [] sub = (if sub = [] then Some 0 else None)"
| "str_find (c # cs) sub =
     (if take (length sub) (c # cs) = sub then Some 0
      else map_option Suc (str_find cs sub))"

definition strip :: "string \<Rightarrow> string \<Rightarrow> string" where
  "strip s chars =
     rev (dropWhile (\<lambda>c. c \<in> set chars) (rev (dropWhile (\<lambda>c. c \<in> set chars) s)))"

section \<open>The collaborators: the SQL parser and the database cursor\<close>

text \<open>
  \<open>sqlglot\<close> is a library outside the repository. Its syntax tree is a tree of
  expressions; a node knows the key under which it hangs in its parent (\<open>arg_key\<close>),
  its class (\<open>exp.Table\<close>, \<open>exp.Join\<close>, \<open>exp.Column\<close>, ...), its \<open>name\<close> and its
  children. \<open>node.args.get(key)\<close> is the child under that key, \<open>node.find_all(cls)\<close>
  the nodes of that class in breadth-first order, the node itself included.
  The parser itself, \<open>sqlglot.parse_one\<close>, is a parameter \<open>parse_one\<close> of every
  function that calls it: \<open>None\<close> when it raises.
\<close>

datatype exp =
  Exp (exp_key: string) (exp_kind: string) (exp_name: string) (exp_children: "exp list")

type_synonym parser = "string \<Rightarrow> exp option"

function bfs :: "exp list \<Rightarrow> exp list" where
  "bfs [] = []"
| "bfs (node # queue) = node # bfs (queue @ exp_children node)"
  by pat_completeness auto
termination
  by (relation "measure (\<lambda>q. sum_list (map size q))")
     (auto, case_tac node, simp add: size_list_conv_sum_list)

definition find_all :: "string \<Rightarrow> exp \<Rightarrow> exp list" where
  "find_all cls node = filter (\<lambda>n. exp_kind n = cls) (bfs [node])"

definition args_get :: "exp \<Rightarrow> string \<Rightarrow> exp option" where
  "args_get node k = find (\<lambda>n. exp_key n = k) (exp_children node)"

text \<open>
  The cursor answers one request at a time: \<open>cursor.execute(q)\<close> followed by
  \<open>cursor.fetchone()\<close> either raises, returns no row, or returns a row. The answer
  is taken to depend on the request only, so a cursor is a record of answers, one
  field per kind of request the engine sends.
\<close>

datatype 'a reply = Raises | NoRow | Row 'a

record cursor =
  approx_distinct :: "string \<Rightarrow> string \<Rightarrow> int reply"
  execution_time_ms :: "string \<Rightarrow> real option reply"
  distribution :: "string \<Rightarrow> string \<Rightarrow> (real list \<times> int \<times> int) reply"
  describe :: "string \<Rightarrow> string \<Rightarrow> string reply"
  min_max :: "string \<Rightarrow> string \<Rightarrow> (int option \<times> int option) reply"
  date_counts :: "string \<Rightarrow> string \<Rightarrow> (int \<times> int \<times> int) reply"

section \<open>partitioning.py: the SQL usage extractor\<close>

definition extract_select_statement :: "string \<Rightarrow> string option" where
  "extract_select_statement ddl =
     (let marker = '' AS '';
          idx = str_find (upper ddl) marker
      in case idx of
           Some i \<Rightarrow> Some (strip (drop (i + length marker) ddl) '' \<newline>;'')
         | None \<Rightarrow> None)"

record usage =
  tables :: "string list"
  join_columns :: "(string \<times> int) list"
  where_columns :: "(string \<times> int) list"

definition table_entry :: "exp \<Rightarrow> string" where
  "table_entry node =
     (case args_get node ''alias'' of
        Some alias \<Rightarrow> exp_name node @ '' AS '' @ exp_name alias
      | None \<Rightarrow> exp_name node)"

definition join_column_names :: "exp \<Rightarrow> string list" where
  "join_column_names parsed =
     concat (map (\<lambda>join. case args_get join ''on'' of
                              Some on \<Rightarrow> map exp_name (find_all ''Column'' on)
                            | None \<Rightarrow> [])
                 (find_all ''Join'' parsed))"

definition where_column_names :: "exp \<Rightarrow> string list" where
  "where_column_names parsed =
     (case args_get parsed ''where'' of
        Some wh \<Rightarrow> map exp_name (find_all ''Column'' wh)
      | None \<Rightarrow> [])"

definition parse_underlying_query :: "parser \<Rightarrow> string \<Rightarrow> usage option" where
  "parse_underlying_query parse_one ddl =
     (case extract_select_statement ddl of
        None \<Rightarrow> None
      | Some query_text \<Rightarrow>
          if query_text = [] then None
          else (case parse_one query_text of
                  None \<Rightarrow> None
                | Some parsed \<Rightarrow>
                    Some \<lparr>tables = map table_entry (find_all ''Table'' parsed),
                          join_columns = Counter (join_column_names parsed),
                          where_columns = Counter (where_column_names parsed)\<rparr>))"

section \<open>partitioning.py: the usage aggregator\<close>

text \<open>
  A view is the tuple (fully qualified name, columns, query count, DDL or \<open>None\<close>).
  A row of the query log is a tuple whose first three fields are the query id, the
  query text and the creation time; the fields from index 3 on are the metrics
  (execution_time_ms, cpu_time_ms, scheduled_time_ms, input_bytes, peak_memory_bytes,
  peak_total_memory_bytes), each a number or \<open>None\<close>, and a row may be cut short.
  So \<open>len(row)\<close> is \<open>row_len\<close> and \<open>row[i]\<close>, for \<open>3 \<le> i < len(row)\<close>, is
  \<open>row_metrics row ! (i - 3)\<close>.
\<close>

type_synonym view_tuple = "string \<times> string list \<times> int \<times> string option"

record log_row =
  row_query_id :: string
  row_query :: string
  row_create_time :: string
  row_metrics :: "real option list"

definition row_len :: "log_row \<Rightarrow> nat" where
  "row_len row = 3 + length (row_metrics row)"

definition row_at :: "log_row \<Rightarrow> nat \<Rightarrow> real option" where
  "row_at row i = row_metrics row ! (i - 3)"

text \<open>The emissions of one view, and of one log row.\<close>

definition view_emissions :: "parser \<Rightarrow> view_tuple \<Rightarrow> string list" where
  "view_emissions parse_one v =
     (case v of (fq_view, columns, query_count, ddl) \<Rightarrow>
        concat (replicate (nat query_count) columns) @
        (case ddl of
           None \<Rightarrow> []
         | Some d \<Rightarrow>
             if d = [] then []
             else (case parse_underlying_query parse_one d of
                     None \<Rightarrow> []
                   | Some stats \<Rightarrow>
                       concat (map (\<lambda>(col, cnt). replicate (nat cnt) col)
                                   (join_columns stats)))))"

definition log_emissions :: "parser \<Rightarrow> log_row \<Rightarrow> string list" where
  "log_emissions parse_one row =
     (case parse_one (row_query row) of
        None \<Rightarrow> []
      | Some parsed \<Rightarrow> map exp_name (find_all ''Table'' parsed))"

text \<open>
  \<open>sort_values(by='WeightedFrequency', ascending=False)\<close> reorders the rows by an
  argsort of the frequency column alone; rows of equal frequency keep their order.
\<close>

definition sort_values_desc :: "(string \<times> int) list \<Rightarrow> (string \<times> int) list" where
  "sort_values_desc rows = sort_key (\<lambda>r. - snd r) rows"

definition aggregate_column_usage ::
  "parser \<Rightarrow> view_tuple list \<Rightarrow> log_row list \<Rightarrow> (string \<times> int) list" where
  "aggregate_column_usage parse_one view_data query_log_data =
     (let weighted_columns =
            concat (map (view_emissions parse_one) view_data) @
            concat (map (log_emissions parse_one) query_log_data);
          col_stats = Counter weighted_columns
      in sort_values_desc col_stats)"

section \<open>partitioning.py: cardinality\<close>



section \<open>partitioning.py: the resource metrics normalizer\<close>

text \<open>
  \<open>[row[i] for row in query_log_data if len(row) > i and row[i] is not None]\<close>: the
  present values of the metric at index \<open>i\<close>, in the order of the rows; and the
  maximum of such a list, 1 when the list is empty. The quotients are exact reals
  here, where Python computes floats.
\<close>

definition metric_values :: "nat \<Rightarrow> log_row list \<Rightarrow> real list" where
  "metric_values i query_log_data =
     List.map_filter (\<lambda>row. if row_len row > i then row_at row i else None) query_log_data"

definition max_or_1 :: "real list \<Rightarrow> real" where
  "max_or_1 vs = (if vs = [] then 1 else Max (set vs))"

text \<open>
  \<open>(row[i] / max_value) * weight if row[i] else 0\<close>: \<open>None\<close> and 0 are both false;
  the division raises when the maximum is 0.
\<close>

definition norm_term :: "real option \<Rightarrow> real \<Rightarrow> real \<Rightarrow> py_error + real" where
  "norm_term v max_value weight =
     (case v of
        None \<Rightarrow> Inr 0
      | Some x \<Rightarrow>
          if x = 0 then Inr 0
          else if max_value = 0 then Inl ZeroDivisionError
          else Inr ((x / max_value) * weight))"

definition resource_score :: "log_row list \<Rightarrow> log_row \<Rightarrow> py_error + real" where
  "resource_score query_log_data row =
     (case norm_term (row_at row 3) (max_or_1 (metric_values 3 query_log_data)) 40 of
        Inl e \<Rightarrow> Inl e
      | Inr exec_time_norm \<Rightarrow>
     (case norm_term (row_at row 4) (max_or_1 (metric_values 4 query_log_data)) 30 of
        Inl e \<Rightarrow> Inl e
      | Inr cpu_time_norm \<Rightarrow>
     (case norm_term (row_at row 6) (max_or_1 (metric_values 6 query_log_data)) 15 of
        Inl e \<Rightarrow> Inl e
      | Inr input_bytes_norm \<Rightarrow>
     (case norm_term (row_at row 7) (max_or_1 (metric_values 7 query_log_data)) 15 of
        Inl e \<Rightarrow> Inl e
      | Inr memory_norm \<Rightarrow>
          Inr (exec_time_norm + cpu_time_norm + input_bytes_norm + memory_norm)))))"

fun resource_loop ::
  "log_row list \<Rightarrow> log_row list \<Rightarrow> (string \<rightharpoonup> real) \<Rightarrow> py_error + (string \<rightharpoonup> real)" where
  "resource_loop query_log_data [] scores = Inr scores"
| "resource_loop query_log_data (row # rows) scores =
     (if row_len row < 8 then resource_loop query_log_data rows scores
      else (case resource_score query_log_data row of
              Inl e \<Rightarrow> Inl e
            | Inr s \<Rightarrow> resource_loop query_log_data rows (scores(row_query_id row \<mapsto> s))))"

definition analyze_query_resource_metrics :: "log_row list \<Rightarrow> py_error + (string \<rightharpoonup> real)" where
  "analyze_query_resource_metrics query_log_data =
     (if query_log_data = [] then Inr Map.empty
      else resource_loop query_log_data query_log_data Map.empty)"

section \<open>partitioning.py: the performance correlator\<close>

text \<open>
  \<open>performance_metrics\<close> is a dict table \<open>\<rightharpoonup>\<close> entry, where an entry holds the
  summed execution time, the number of queries and a dict column \<open>\<rightharpoonup>\<close> summed
  execution time.
\<close>

record perf_entry =
  pe_execution_time :: real
  pe_query_count :: nat
  pe_columns :: "string \<rightharpoonup> real"

type_synonym performance_metrics = "string \<rightharpoonup> perf_entry"

definition new_entry :: perf_entry where
  "new_entry = \<lparr>pe_execution_time = 0, pe_query_count = 0, pe_columns = Map.empty\<rparr>"

definition ensure_table :: "performance_metrics \<Rightarrow> string \<Rightarrow> performance_metrics" where
  "ensure_table pm table = (case pm table of None \<Rightarrow> pm(table \<mapsto> new_entry) | Some _ \<Rightarrow> pm)"

definition add_columns :: "real \<Rightarrow> string list \<Rightarrow> (string \<rightharpoonup> real) \<Rightarrow> (string \<rightharpoonup> real)" where
  "add_columns t columns m = fold (\<lambda>col m. m(col \<mapsto> get_or (m col) 0 + t)) columns m"

definition add_table ::
  "real \<Rightarrow> string list \<Rightarrow> string \<Rightarrow> performance_metrics \<Rightarrow> performance_metrics" where
  "add_table t columns table pm =
     (let e = get_or (pm table) new_entry
      in pm(table \<mapsto> e\<lparr>pe_execution_time := pe_execution_time e + t,
                          pe_query_count := pe_query_count e + 1,
                          pe_columns := add_columns t columns (pe_columns e)\<rparr>))"

text \<open>
  One log row, with its \<open>try\<close>: a request that raises or returns no row, and a parse
  error, leave the metrics as they were. When the fetched execution time is \<open>None\<close>,
  the first \<open>+=\<close> raises after the entry of the first table has been created, and the
  entry stays.
\<close>

definition perf_row :: "parser \<Rightarrow> cursor \<Rightarrow> log_row \<Rightarrow> performance_metrics \<Rightarrow> performance_metrics" where
  "perf_row parse_one cur row pm =
     (case execution_time_ms cur (row_query_id row) of
        Row result0 \<Rightarrow>
          (case parse_one (row_query row) of
             None \<Rightarrow> pm
           | Some parsed \<Rightarrow>
               (let tables = map exp_name (find_all ''Table'' parsed);
                    columns = map exp_name (find_all ''Column'' parsed)
                in case result0 of
                     Some t \<Rightarrow> fold (add_table t columns) tables pm
                   | None \<Rightarrow> (case tables of [] \<Rightarrow> pm | table # _ \<Rightarrow> ensure_table pm table)))
      | _ \<Rightarrow> pm)"

definition analyze_query_performance ::
  "parser \<Rightarrow> cursor \<Rightarrow> view_tuple list \<Rightarrow> log_row list \<Rightarrow> performance_metrics" where
  "analyze_query_performance parse_one cur view_data query_log_data =
     fold (perf_row parse_one cur) query_log_data Map.empty"

section \<open>partitioning.py: data distribution\<close>

record dist_stat =
  ds_percentiles :: "real list"
  ds_skew_ratio :: real
  ds_density :: real
  ds_distinct_count :: int

definition truediv :: "real \<Rightarrow> real \<Rightarrow> py_error + real" where
  "truediv a b = (if b = 0 then Inl ZeroDivisionError else Inr (a / b))"

definition list_get :: "'a list \<Rightarrow> nat \<Rightarrow> py_error + 'a" where
  "list_get xs i = (if i < length xs then Inr (xs ! i) else Inl IndexError)"

text \<open>
  The body of the \<open>try\<close> for one column: \<open>Inl\<close> is an exception (which the \<open>except\<close>
  logs), \<open>Inr None\<close> no entry, \<open>Inr (Some st)\<close> the entry. The row of the reply is
  (percentiles, distinct_count, total_count); an empty list of percentiles stands for
  any false \<open>result[0]\<close>.
\<close>

definition column_distribution :: "(real list \<times> int \<times> int) reply \<Rightarrow> py_error + dist_stat option" where
  "column_distribution result =
     (case result of
        Raises \<Rightarrow> Inl DatabaseError
      | NoRow \<Rightarrow> Inr None
      | Row (percentiles, distinct_count, total_count) \<Rightarrow>
          if percentiles = [] then Inr None
          else
     (case list_get percentiles 0 of Inl e \<Rightarrow> Inl e | Inr p10 \<Rightarrow>
     (case list_get percentiles 2 of Inl e \<Rightarrow> Inl e | Inr p90 \<Rightarrow>
     (case (if p10 \<noteq> p90 \<and> p10 \<noteq> 0 then truediv p90 p10 else Inr 1.0) of
        Inl e \<Rightarrow> Inl e | Inr skew_ratio \<Rightarrow>
     (case (if total_count > 0
            then truediv (real_of_int distinct_count) (real_of_int total_count)
            else Inr 0) of
        Inl e \<Rightarrow> Inl e | Inr density \<Rightarrow>
          Inr (Some \<lparr>ds_percentiles = percentiles, ds_skew_ratio = skew_ratio,
                     ds_density = density, ds_distinct_count = distinct_count\<rparr>))))))"

definition view_distribution :: "cursor \<Rightarrow> string \<Rightarrow> string list \<Rightarrow> (string \<rightharpoonup> dist_stat)" where
  "view_distribution cur fq_view columns =
     (let sample_columns = take (min 5 (length columns)) columns
      in fold (\<lambda>column view_stats.
                 case column_distribution (distribution cur fq_view column) of
                   Inr (Some st) \<Rightarrow> view_stats(column \<mapsto> st)
                 | _ \<Rightarrow> view_stats)
              sample_columns Map.empty)"

definition analyze_data_distribution ::
  "cursor \<Rightarrow> view_tuple list \<Rightarrow> (string \<rightharpoonup> (string \<rightharpoonup> dist_stat))" where
  "analyze_data_distribution cur view_data =
     fold (\<lambda>(fq_view, columns, _, _) distribution_stats.
             distribution_stats(fq_view \<mapsto> view_distribution cur fq_view columns))
          view_data Map.empty"

section \<open>iceberg_utils.py\<close>

text \<open>
  \<open>column_stats\<close> is a dict with the optional keys \<open>cardinality\<close>, \<open>value_range\<close> and
  \<open>date_granularity\<close>; a key that is absent is \<open>None\<close> here, and
  \<open>column_stats.get(key, 0)\<close> is \<open>get_or\<close> with default 0.
\<close>

record column_stat =
  cs_cardinality :: "int option"
  cs_value_range :: "int option"
  cs_date_granularity :: "string option"

definition empty_stat :: column_stat where
  "empty_stat = \<lparr>cs_cardinality = None, cs_value_range = None, cs_date_granularity = None\<rparr>"

definition generate_iceberg_partition_spec :: "string \<Rightarrow> string \<Rightarrow> column_stat \<Rightarrow> string" where
  "generate_iceberg_partition_spec column column_type column_stats =
     (if column_type \<in> set [''date'', ''timestamp''] then
        (case cs_date_granularity column_stats of
           Some granularity \<Rightarrow>
             if granularity = ''day'' then ''day('' @ column @ '')''
             else if granularity = ''month'' then ''month('' @ column @ '')''
             else if granularity = ''year'' then ''year('' @ column @ '')''
             else ''month('' @ column @ '')''
         | None \<Rightarrow> ''month('' @ column @ '')'')
      else if column_type \<in> set [''varchar'', ''string'', ''char''] then
        (let cardinality = get_or (cs_cardinality column_stats) 0 in
         if cardinality > 10000 then ''bucket(16, '' @ column @ '')''
         else column)
      else if column_type \<in> set [''integer'', ''bigint''] then
        (let cardinality = get_or (cs_cardinality column_stats) 0 in
         if cardinality > 1000 then
           (let bucket_count = min (max (int_of_truediv cardinality 500) 4) 32 in
            ''bucket('' @ str_int bucket_count @ '', '' @ column @ '')'')
         else
           (let value_range = get_or (cs_value_range column_stats) 0 in
            if value_range > 10000 then ''truncate('' @ column @ '', 100)''
            else column))
      else column)"

section \<open>partitioning.py: the partition score\<close>

text \<open>
  \<open>global_stats\<close> is the frequency table: rows of (Column, WeightedFrequency).
  \<open>cardinality_stats\<close> is a dict view \<open>\<rightharpoonup>\<close> column \<open>\<rightharpoonup>\<close> cardinality.
\<close>

type_synonym freq_table = "(string \<times> int) list"

type_synonym cardinality_stats = "string \<rightharpoonup> (string \<rightharpoonup> int)"

text \<open>
  \<open>global_stats.loc[global_stats['Column'] == column, 'WeightedFrequency'].values[0]\<close>
  when the column occurs in the table, 0 otherwise: the frequency of the first row of
  that column.
\<close>

definition base_weight :: "freq_table \<Rightarrow> string \<Rightarrow> int" where
  "base_weight global_stats column =
     (if column \<in> set (map fst global_stats)
      then snd (hd (filter (\<lambda>r. fst r = column) global_stats)) else 0)"

definition calculate_partition_score ::
  "string \<Rightarrow> string \<Rightarrow> cardinality_stats \<Rightarrow> performance_metrics \<Rightarrow> freq_table \<Rightarrow> real" where
  "calculate_partition_score column view cardinality_stats performance_metrics global_stats =
     (let score = 0;
          score = score + real_of_int (base_weight global_stats column) * 1.0;
          score =
            (case cardinality_stats view of
               None \<Rightarrow> score
             | Some view_stats \<Rightarrow>
                 (case view_stats column of
                    None \<Rightarrow> score
                  | Some cardinality \<Rightarrow>
                      if cardinality < 10 then score + 5
                      else if cardinality < 100 then score + 10
                      else if cardinality < 1000 then score + 8
                      else if cardinality < 10000 then score + 5
                      else score + 1));
          score =
            (case performance_metrics view of
               None \<Rightarrow> score
             | Some entry \<Rightarrow>
                 (case pe_columns entry column of
                    None \<Rightarrow> score
                  | Some t \<Rightarrow> score + min (t / 1000) 50))
      in score)"

section \<open>partitioning.py: the script generator\<close>











section \<open>Vocabulary of the properties\<close>




text \<open>The entry that the distribution loop records for one column, if any.\<close>

definition stat_of :: "cursor \<Rightarrow> string \<Rightarrow> string \<Rightarrow> dist_stat option" where
  "stat_of cur v c =
     (case column_distribution (distribution cur v c) of Inr (Some st) \<Rightarrow> Some st | _ \<Rightarrow> None)"

text \<open>A cursor for the examples: every column has percentiles 1, 5, 10, 4 distinct values in 8 rows.\<close>

definition demo_cursor :: cursor where
  "demo_cursor =
     \<lparr>approx_distinct = (\<lambda>v c. Row 4),
      execution_time_ms = (\<lambda>q. Row (Some 2000)),
      distribution = (\<lambda>v c. Row ([1, 5, 10], 4, 8)),
      describe = (\<lambda>v c. Row ''integer''),
      min_max = (\<lambda>v c. Row (Some 0, Some 20000)),
      date_counts = (\<lambda>v c. NoRow)\<rparr>"


definition supplies_metric :: "log_row \<Rightarrow> bool" where
  "supplies_metric row \<longleftrightarrow> list_ex (\<lambda>i. i < row_len row \<and> row_at row i \<noteq> None) [3, 4, 6, 7]"


text \<open>Example rows: a row of nine fields, and one with every metric \<open>None\<close>.\<close>

definition mk_row :: "string \<Rightarrow> real option list \<Rightarrow> log_row" where
  "mk_row qid ms =
     \<lparr>row_query_id = qid, row_query = ''SELECT 1'', row_create_time = ''2024-01-01'',
      row_metrics = ms\<rparr>"



text \<open>
  The table names that the performance correlator reads from one log row: those of
  the parsed query, when the cursor returned a row for the query id and the query
  text parsed; and the names read from a whole batch.
\<close>

definition row_tables :: "parser \<Rightarrow> cursor \<Rightarrow> log_row \<Rightarrow> string list" where
  "row_tables parse_one cur row =
     (case execution_time_ms cur (row_query_id row) of
        Row _ \<Rightarrow>
          (case parse_one (row_query row) of
             Some parsed \<Rightarrow> map exp_name (find_all ''Table'' parsed)
           | None \<Rightarrow> [])
      | _ \<Rightarrow> [])"

definition processed_tables :: "parser \<Rightarrow> cursor \<Rightarrow> log_row list \<Rightarrow> string list" where
  "processed_tables parse_one cur query_log_data =
     concat (map (row_tables parse_one cur) query_log_data)"

text \<open>
  The query of the end-to-end example and the tree that \<open>sqlglot\<close> builds for it: a
  \<open>Select\<close> with a star, a \<open>From\<close> over the table \<open>orders\<close> aliased \<open>o\<close>, one \<open>Join\<close>
  with the table \<open>regions\<close> aliased \<open>r\<close> whose \<open>on\<close> is the equation of the columns
  \<open>o.region\<close> and \<open>r.region\<close>, and a \<open>Where\<close> comparing the column \<open>o.amount\<close> with
  the literal 100. \<open>sales_parser\<close> knows this one query and fails on every other text.
\<close>

definition sales_ddl :: string where
  "sales_ddl = ''CREATE MATERIALIZED VIEW db.sales AS SELECT * FROM orders o JOIN regions r ON o.region=r.region WHERE o.amount > 100''"

definition sales_select :: string where
  "sales_select = ''SELECT * FROM orders o JOIN regions r ON o.region=r.region WHERE o.amount > 100''"

definition table_node :: "string \<Rightarrow> string \<Rightarrow> string \<Rightarrow> exp" where
  "table_node k nm alias =
     Exp k ''Table'' nm
       [Exp ''this'' ''Identifier'' nm [],
        Exp ''alias'' ''TableAlias'' alias [Exp ''this'' ''Identifier'' alias []]]"

definition column_node :: "string \<Rightarrow> string \<Rightarrow> string \<Rightarrow> exp" where
  "column_node k nm tbl =
     Exp k ''Column'' nm
       [Exp ''this'' ''Identifier'' nm [], Exp ''table'' ''Identifier'' tbl []]"

definition sales_tree :: exp where
  "sales_tree =
     Exp [] ''Select'' []
       [Exp ''expressions'' ''Star'' ''*'' [],
        Exp ''from'' ''From'' [] [table_node ''this'' ''orders'' ''o''],
        Exp ''joins'' ''Join'' []
          [table_node ''this'' ''regions'' ''r'',
           Exp ''on'' ''EQ'' []
             [column_node ''this'' ''region'' ''o'',
              column_node ''expression'' ''region'' ''r'']],
        Exp ''where'' ''Where'' []
          [Exp ''this'' ''GT'' []
             [column_node ''this'' ''amount'' ''o'',
              Exp ''expression'' ''Literal'' ''100'' []]]]"

definition sales_parser :: parser where
  "sales_parser q = (if q = sales_select then Some sales_tree else None)"

text \<open>The view of the end-to-end example, and two views with one column each.\<close>

definition sales_view :: view_tuple where
  "sales_view = (''db.sales'', [''order_date'', ''region'', ''amount''], 1, Some sales_ddl)"





chapter \<open>Properties\<close>

section \<open>The transform selector\<close>

text \<open>
  C6. \<open>generate_iceberg_partition_spec\<close>: a timestamp with granularity day gives
  \<open>day(col)\<close>; a varchar of cardinality 20000 gives \<open>bucket(16, col)\<close>; an integer of
  cardinality 5000 gives \<open>bucket(10, col)\<close>; and for every integer or bigint column a
  cardinality above 1000 gives \<open>bucket(n, column)\<close> with n the quotient
  cardinality / 500 clamped to [4, 32], a cardinality of at most 1000 (or none, read
  as 0) with a value range above 10000 gives \<open>truncate(column, 100)\<close>, and anything
  else the bare column.
\<close>

theorem generate_iceberg_partition_spec_cases:
  "generate_iceberg_partition_spec ''col'' ''timestamp''
      (empty_stat\<lparr>cs_date_granularity := Some ''day''\<rparr>) = ''day(col)''
   \<and> generate_iceberg_partition_spec ''col'' ''varchar''
      (empty_stat\<lparr>cs_cardinality := Some 20000\<rparr>) = ''bucket(16, col)''
   \<and> generate_iceberg_partition_spec ''col'' ''integer''
      (empty_stat\<lparr>cs_cardinality := Some 5000\<rparr>) = ''bucket(10, col)''
   \<and> (\<forall>column ty st.
        ty \<in> {''integer'', ''bigint''} \<longrightarrow>
        generate_iceberg_partition_spec column ty st =
          (if get_or (cs_cardinality st) 0 > 1000
           then ''bucket('' @ str_int (min (max (get_or (cs_cardinality st) 0 div 500) 4) 32)
                  @ '', '' @ column @ '')''
           else if get_or (cs_value_range st) 0 > 10000
           then ''truncate('' @ column @ '', 100)''
           else column))"
proof -
  have a: "generate_iceberg_partition_spec ''col'' ''timestamp''
      (empty_stat\<lparr>cs_date_granularity := Some ''day''\<rparr>) = ''day(col)''"
    by (simp add: generate_iceberg_partition_spec_def empty_stat_def)
  have b: "generate_iceberg_partition_spec ''col'' ''varchar''
      (empty_stat\<lparr>cs_cardinality := Some 20000\<rparr>) = ''bucket(16, col)''"
    by (simp add: generate_iceberg_partition_spec_def empty_stat_def get_or_def)
  have c: "generate_iceberg_partition_spec ''col'' ''integer''
      (empty_stat\<lparr>cs_cardinality := Some 5000\<rparr>) = ''bucket(10, col)''"
    by (simp add: generate_iceberg_partition_spec_def empty_stat_def get_or_def
        int_of_truediv_def str_int_def)
  have d: "generate_iceberg_partition_spec column ty st =
          (if get_or (cs_cardinality st) 0 > 1000
           then ''bucket('' @ str_int (min (max (get_or (cs_cardinality st) 0 div 500) 4) 32)
                  @ '', '' @ column @ '')''
           else if get_or (cs_value_range st) 0 > 10000
           then ''truncate('' @ column @ '', 100)''
           else column)"
    if "ty \<in> {''integer'', ''bigint''}" for column ty st
    using that
    by (auto simp add: generate_iceberg_partition_spec_def int_of_truediv_def Let_def)
  from a b c d show ?thesis by blast
qed

theorem generate_iceberg_partition_spec_cases_witness:
  "generate_iceberg_partition_spec ''id'' ''bigint'' (empty_stat\<lparr>cs_cardinality := Some 1500\<rparr>)
     = ''bucket(4, id)''
   \<and> generate_iceberg_partition_spec ''id'' ''bigint'' (empty_stat\<lparr>cs_cardinality := Some 99999\<rparr>)
     = ''bucket(32, id)''
   \<and> generate_iceberg_partition_spec ''id'' ''integer''
        (empty_stat\<lparr>cs_cardinality := Some 1000, cs_value_range := Some 10001\<rparr>)
     = ''truncate(id, 100)''
   \<and> generate_iceberg_partition_spec ''id'' ''integer''
        (empty_stat\<lparr>cs_cardinality := Some 1000, cs_value_range := Some 10000\<rparr>)
     = ''id''"
proof -
  have m: "''bigint'' \<in> {''integer'', ''bigint''}" "''integer'' \<in> {''integer'', ''bigint''}"
    by simp_all
  note t = generate_iceberg_partition_spec_cases
  from t have g: "\<And>column ty st. ty \<in> {''integer'', ''bigint''} \<Longrightarrow>
        generate_iceberg_partition_spec column ty st =
          (if get_or (cs_cardinality st) 0 > 1000
           then ''bucket('' @ str_int (min (max (get_or (cs_cardinality st) 0 div 500) 4) 32)
                  @ '', '' @ column @ '')''
           else if get_or (cs_value_range st) 0 > 10000
           then ''truncate('' @ column @ '', 100)''
           else column)"
    by blast
  show ?thesis
    by (simp add: g [OF m(1)] g [OF m(2)] empty_stat_def get_or_def str_int_def)
qed

section \<open>The partition scorer\<close>

text \<open>
  C7. The cardinality bonus of \<open>calculate_partition_score\<close>, that is what the score
  gains over the score computed without cardinality statistics: 5 for a cardinality
  below 10, 10 below 100, 8 below 1000, 5 below 10000, 1 from 10000 on, and 0 when the
  cardinality of the (view, column) is unknown; in particular the bonus is 5 at 5, 10
  at 50, 5 at 5000 and 1 at 50000.
\<close>

theorem cardinality_bonus_bands:
  "calculate_partition_score column view cardinality_stats performance_metrics global_stats
     - calculate_partition_score column view Map.empty performance_metrics global_stats
   = (case (case cardinality_stats view of None \<Rightarrow> None | Some vs \<Rightarrow> vs column) of
        None \<Rightarrow> 0
      | Some c \<Rightarrow>
          if c < 10 then 5 else if c < 100 then 10 else if c < 1000 then 8
          else if c < 10000 then 5 else 1)
   \<and> calculate_partition_score ''c'' ''v'' [''v'' \<mapsto> [''c'' \<mapsto> 5]] Map.empty [] = 5
   \<and> calculate_partition_score ''c'' ''v'' [''v'' \<mapsto> [''c'' \<mapsto> 50]] Map.empty [] = 10
   \<and> calculate_partition_score ''c'' ''v'' [''v'' \<mapsto> [''c'' \<mapsto> 5000]] Map.empty [] = 5
   \<and> calculate_partition_score ''c'' ''v'' [''v'' \<mapsto> [''c'' \<mapsto> 50000]] Map.empty [] = 1"
  by (simp add: calculate_partition_score_def base_weight_def split: option.splits)

section \<open>The SQL usage extractor\<close>










section \<open>Dicts built by a loop\<close>

lemma find_snoc:
  "find P (ys @ [x]) =
     (case find P ys of Some y \<Rightarrow> Some y | None \<Rightarrow> if P x then Some x else None)"
  by (induction ys) auto

lemma fold_upd_lookup:
  "fold (\<lambda>x m. m(key x \<mapsto> val x)) xs m0 k =
     (case find (\<lambda>x. key x = k) (rev xs) of Some x \<Rightarrow> Some (val x) | None \<Rightarrow> m0 k)"
proof (induction xs arbitrary: m0)
  case Nil
  then show ?case by simp
next
  case (Cons x xs)
  let ?f = "\<lambda>x m. m(key x \<mapsto> val x)"
  have "fold ?f (x # xs) m0 k = fold ?f xs (m0(key x \<mapsto> val x)) k"
    by simp
  also have "\<dots> = (case find (\<lambda>x. key x = k) (rev xs) of
                      Some y \<Rightarrow> Some (val y) | None \<Rightarrow> (m0(key x \<mapsto> val x)) k)"
    by (rule Cons.IH)
  also have "\<dots> = (case find (\<lambda>x. key x = k) (rev (x # xs)) of
                      Some y \<Rightarrow> Some (val y) | None \<Rightarrow> m0 k)"
    by (simp add: find_snoc split: option.splits)
  finally show ?case .
qed

lemma find_SomeD: "find P xs = Some x \<Longrightarrow> x \<in> set xs \<and> P x"
  by (induction xs) (auto split: if_splits)

lemma fold_upd_Some:
  assumes "fold (\<lambda>x m. m(key x \<mapsto> val x)) xs Map.empty k = Some y"
  shows "\<exists>x\<in>set xs. key x = k \<and> y = val x"
proof -
  from assms have c: "(case find (\<lambda>x. key x = k) (rev xs) of
                      Some x \<Rightarrow> Some (val x) | None \<Rightarrow> None) = Some y"
    by (simp only: fold_upd_lookup)
  then obtain x where x: "find (\<lambda>x. key x = k) (rev xs) = Some x" "y = val x"
    by (cases "find (\<lambda>x. key x = k) (rev xs)") auto
  from find_SomeD [OF x(1)] have "x \<in> set xs" "key x = k" by simp_all
  with x(2) show ?thesis by blast
qed

lemma fold_opt_upd_lookup:
  "fold (\<lambda>k m. case g k of Some v \<Rightarrow> m(k \<mapsto> v) | None \<Rightarrow> m) xs m0 k =
     (if k \<in> set xs \<and> g k \<noteq> None then g k else m0 k)"
  by (induction xs arbitrary: m0) (auto split: option.splits)

section \<open>Data distribution\<close>

lemma column_distribution_Row:
  "3 \<le> length ps \<Longrightarrow>
   column_distribution (Row (ps, d, t)) =
     Inr (Some \<lparr>ds_percentiles = ps,
                ds_skew_ratio = (if ps ! 0 \<noteq> ps ! 2 \<and> ps ! 0 \<noteq> 0 then ps ! 2 / ps ! 0 else 1),
                ds_density = (if t > 0 then real_of_int d / real_of_int t else 0),
                ds_distinct_count = d\<rparr>)"
  by (cases ps) (auto simp: column_distribution_def list_get_def truediv_def)

lemma column_distribution_short:
  "\<not> 3 \<le> length ps \<Longrightarrow>
   column_distribution (Row (ps, d, t)) = (if ps = [] then Inr None else Inl IndexError)"
  by (simp add: column_distribution_def list_get_def)

lemma column_distribution_Some:
  assumes "column_distribution r = Inr (Some st)"
  shows "\<exists>ps d t. r = Row (ps, d, t) \<and> 3 \<le> length ps
     \<and> st = \<lparr>ds_percentiles = ps,
              ds_skew_ratio = (if ps ! 0 \<noteq> ps ! 2 \<and> ps ! 0 \<noteq> 0 then ps ! 2 / ps ! 0 else 1),
              ds_density = (if t > 0 then real_of_int d / real_of_int t else 0),
              ds_distinct_count = d\<rparr>"
proof (cases r)
  case Raises
  with assms show ?thesis by (simp add: column_distribution_def)
next
  case NoRow
  with assms show ?thesis by (simp add: column_distribution_def)
next
  case (Row x)
  obtain ps d t where x: "x = (ps, d, t)" by (cases x) auto
  have l: "3 \<le> length ps"
  proof (rule ccontr)
    assume "\<not> 3 \<le> length ps"
    then have "column_distribution (Row (ps, d, t)) = Inr None
        \<or> column_distribution (Row (ps, d, t)) = Inl IndexError"
      by (simp add: column_distribution_short)
    with assms Row x show False by auto
  qed
  from column_distribution_Row [OF l, of d t] assms Row x l show ?thesis by auto
qed

lemma column_distribution_no_zero_division:
  "column_distribution r \<noteq> Inl ZeroDivisionError"
proof (cases r)
  case Raises
  then show ?thesis by (simp add: column_distribution_def)
next
  case NoRow
  then show ?thesis by (simp add: column_distribution_def)
next
  case (Row x)
  obtain ps d t where x: "x = (ps, d, t)" by (cases x) auto
  show ?thesis
  proof (cases "3 \<le> length ps")
    case True
    then show ?thesis
      using column_distribution_Row [of ps d t] unfolding Row x by simp
  next
    case False
    then show ?thesis
      using column_distribution_short [of ps d t] unfolding Row x by simp
  qed
qed

lemma view_distribution_lookup:
  "view_distribution cur v cols c =
     (if c \<in> set (take 5 cols) then stat_of cur v c else None)"
proof -
  have f: "(\<lambda>column view_stats.
                 case column_distribution (distribution cur v column) of
                   Inr (Some st) \<Rightarrow> view_stats(column \<mapsto> st)
                 | _ \<Rightarrow> view_stats)
        = (\<lambda>k m. case stat_of cur v k of Some st \<Rightarrow> m(k \<mapsto> st) | None \<Rightarrow> m)"
    by (auto simp: fun_eq_iff stat_of_def split: sum.splits option.splits)
  have t: "take (min 5 (length cols)) cols = take 5 cols"
    by (simp add: min_def)
  show ?thesis
    unfolding view_distribution_def Let_def f t
    by (simp add: fold_opt_upd_lookup)
qed

lemma analyze_data_distribution_Some:
  assumes "analyze_data_distribution cur view_data v = Some vs"
  shows "\<exists>cols. vs = view_distribution cur v cols"
proof -
  have f: "(\<lambda>(fq_view, columns, _, _) distribution_stats.
             distribution_stats(fq_view \<mapsto> view_distribution cur fq_view columns))
      = (\<lambda>x m. m(fst x \<mapsto> view_distribution cur (fst x) (fst (snd x))))"
    by (auto simp: fun_eq_iff)
  from assms have "fold (\<lambda>x m. m(fst x \<mapsto> view_distribution cur (fst x) (fst (snd x))))
        view_data Map.empty v = Some vs"
    unfolding analyze_data_distribution_def f .
  from fold_upd_Some [OF this]
  have "\<exists>x\<in>set view_data. fst x = v \<and> vs = view_distribution cur (fst x) (fst (snd x))" .
  then obtain x :: view_tuple
    where "fst x = v" "vs = view_distribution cur (fst x) (fst (snd x))"
    by blast
  then show ?thesis by (intro exI [of _ "fst (snd x)"]) simp
qed

text \<open>
  C10. In \<open>analyze_data_distribution\<close> no column raises a division by zero; every entry
  recorded for a (view, column) comes from a reply with at least three percentiles and
  has \<open>skew_ratio = p90 / p10\<close> when \<open>p10 \<noteq> 0\<close> and \<open>p10 \<noteq> p90\<close> and 1 otherwise, and
  \<open>density = distinct_count / total_count\<close> when \<open>total_count > 0\<close> and 0 otherwise (so 0
  when \<open>total_count\<close> is 0); and every sampled column whose reply has three percentiles
  gets an entry.
\<close>

theorem analyze_data_distribution_guards:
  "column_distribution r \<noteq> Inl ZeroDivisionError
   \<and> (\<forall>vs st. analyze_data_distribution cur view_data v = Some vs \<and> vs c = Some st \<longrightarrow>
        (\<exists>ps d t. distribution cur v c = Row (ps, d, t) \<and> 3 \<le> length ps
           \<and> ds_skew_ratio st = (if ps ! 0 \<noteq> 0 \<and> ps ! 0 \<noteq> ps ! 2 then ps ! 2 / ps ! 0 else 1)
           \<and> ds_density st = (if t > 0 then real_of_int d / real_of_int t else 0)))
   \<and> (\<forall>ps d t. c \<in> set (take 5 cols) \<and> distribution cur v c = Row (ps, d, t) \<and> 3 \<le> length ps \<longrightarrow>
        view_distribution cur v cols c \<noteq> None)"
proof (intro conjI allI impI)
  show "column_distribution r \<noteq> Inl ZeroDivisionError"
    by (rule column_distribution_no_zero_division)
next
  fix vs st
  assume a: "analyze_data_distribution cur view_data v = Some vs \<and> vs c = Some st"
  then obtain cols' where "vs = view_distribution cur v cols'"
    using analyze_data_distribution_Some by blast
  with a have "stat_of cur v c = Some st"
    by (simp add: view_distribution_lookup split: if_splits)
  then have "column_distribution (distribution cur v c) = Inr (Some st)"
    by (simp add: stat_of_def split: sum.splits option.splits)
  from column_distribution_Some [OF this]
  obtain ps d t where r: "distribution cur v c = Row (ps, d, t)" "3 \<le> length ps"
     and st: "st = \<lparr>ds_percentiles = ps,
              ds_skew_ratio = (if ps ! 0 \<noteq> ps ! 2 \<and> ps ! 0 \<noteq> 0 then ps ! 2 / ps ! 0 else 1),
              ds_density = (if t > 0 then real_of_int d / real_of_int t else 0),
              ds_distinct_count = d\<rparr>"
    by blast
  have "ds_skew_ratio st = (if ps ! 0 \<noteq> 0 \<and> ps ! 0 \<noteq> ps ! 2 then ps ! 2 / ps ! 0 else 1)"
    unfolding st by simp
  moreover have "ds_density st = (if t > 0 then real_of_int d / real_of_int t else 0)"
    unfolding st by simp
  ultimately
  show "\<exists>ps d t. distribution cur v c = Row (ps, d, t) \<and> 3 \<le> length ps
           \<and> ds_skew_ratio st = (if ps ! 0 \<noteq> 0 \<and> ps ! 0 \<noteq> ps ! 2 then ps ! 2 / ps ! 0 else 1)
           \<and> ds_density st = (if t > 0 then real_of_int d / real_of_int t else 0)"
    using r by blast
next
  fix ps d t
  assume a: "c \<in> set (take 5 cols) \<and> distribution cur v c = Row (ps, d, t) \<and> 3 \<le> length ps"
  then have "column_distribution (distribution cur v c) = Inr (Some
      \<lparr>ds_percentiles = ps,
       ds_skew_ratio = (if ps ! 0 \<noteq> ps ! 2 \<and> ps ! 0 \<noteq> 0 then ps ! 2 / ps ! 0 else 1),
       ds_density = (if t > 0 then real_of_int d / real_of_int t else 0),
       ds_distinct_count = d\<rparr>)"
    by (simp add: column_distribution_Row)
  then have "stat_of cur v c \<noteq> None"
    by (simp add: stat_of_def)
  with a show "view_distribution cur v cols c \<noteq> None"
    by (simp add: view_distribution_lookup)
qed

theorem analyze_data_distribution_guards_witness:
  "\<exists>vs st. analyze_data_distribution demo_cursor [(''db.sales'', [''region''], 1, None)] ''db.sales''
        = Some vs
     \<and> vs ''region'' = Some st \<and> ds_skew_ratio st = 10 \<and> ds_density st = 1 / 2"
proof -
  let ?vd = "[(''db.sales'', [''region''], 1, None)] :: view_tuple list"
  let ?vs = "view_distribution demo_cursor ''db.sales'' [''region'']"
  have 1: "analyze_data_distribution demo_cursor ?vd ''db.sales'' = Some ?vs"
    by (simp add: analyze_data_distribution_def)
  have "view_distribution demo_cursor ''db.sales'' [''region''] ''region'' \<noteq> None"
    using analyze_data_distribution_guards
      [of Raises demo_cursor ?vd "''db.sales''" "''region''" "[''region'']"]
    by (simp add: demo_cursor_def)
  then obtain st where 2: "?vs ''region'' = Some st" by blast
  from analyze_data_distribution_guards
      [of Raises demo_cursor ?vd "''db.sales''" "''region''" "[''region'']"] 1 2
  obtain ps d t where "distribution demo_cursor ''db.sales'' ''region'' = Row (ps, d, t)"
      "ds_skew_ratio st = (if ps ! 0 \<noteq> 0 \<and> ps ! 0 \<noteq> ps ! 2 then ps ! 2 / ps ! 0 else 1)"
      "ds_density st = (if t > 0 then real_of_int d / real_of_int t else 0)"
    by blast
  then have "ds_skew_ratio st = 10 \<and> ds_density st = 1 / 2"
    by (auto simp: demo_cursor_def)
  with 1 2 show ?thesis by blast
qed

section \<open>The resource metrics normalizer\<close>









lemma resource_loop_dom:
  assumes "resource_loop data rows scores = Inr m"
  shows "m qid \<noteq> None \<longleftrightarrow>
     scores qid \<noteq> None \<or> (\<exists>row\<in>set rows. row_query_id row = qid \<and> 8 \<le> row_len row)"
  using assms
proof (induction rows arbitrary: scores)
  case Nil
  then show ?case by simp
next
  case (Cons row rows)
  show ?case
  proof (cases "row_len row < 8")
    case True
    with Cons.prems have "resource_loop data rows scores = Inr m" by simp
    from Cons.IH [OF this] True show ?thesis by auto
  next
    case False
    with Cons.prems obtain s' where s': "resource_score data row = Inr s'"
        "resource_loop data rows (scores(row_query_id row \<mapsto> s')) = Inr m"
      by (auto split: sum.splits)
    from Cons.IH [OF s'(2)] False show ?thesis by auto
  qed
qed







text \<open>
  C2 as stated: every query id in the returned score map comes from a row that
  supplies at least one of the four metrics. This fails for a row of nine fields whose
  metrics are all \<open>None\<close>: it supplies none of the four and is given the score 0.
\<close>

theorem resource_score_all_none_counterexample:
  "\<not> supplies_metric (mk_row ''q1'' [None, None, None, None, None, None])
   \<and> analyze_query_resource_metrics [mk_row ''q1'' [None, None, None, None, None, None]]
       = Inr [''q1'' \<mapsto> 0]"
  by (simp add: mk_row_def supplies_metric_def row_len_def row_at_def
      analyze_query_resource_metrics_def resource_score_def norm_term_def)

text \<open>
  C2, amended: a row is skipped exactly when it has fewer than 8 fields. Whenever
  \<open>analyze_query_resource_metrics\<close> returns a score map, a query id is in the map if
  and only if some row of the batch with that id has at least 8 fields; so a row of
  fewer than 8 fields (which cannot supply all four metrics) emits no score, while a
  row of 8 fields or more is scored even when all four metrics are \<open>None\<close>.
\<close>

theorem resource_scores_emitted:
  assumes "analyze_query_resource_metrics query_log_data = Inr m"
  shows "m qid \<noteq> None \<longleftrightarrow>
     (\<exists>row\<in>set query_log_data. row_query_id row = qid \<and> 8 \<le> row_len row)"
proof (cases "query_log_data = []")
  case True
  with assms have "m = Map.empty" by (simp add: analyze_query_resource_metrics_def)
  with True show ?thesis by simp
next
  case False
  with assms have "resource_loop query_log_data query_log_data Map.empty = Inr m"
    by (simp add: analyze_query_resource_metrics_def)
  from resource_loop_dom [OF this, of qid] show ?thesis by simp
qed

theorem resource_scores_emitted_witness:
  "analyze_query_resource_metrics
      [mk_row ''q1'' [Some 5], mk_row ''q2'' [None, None, None, None, None]]
     = Inr [''q2'' \<mapsto> 0]
   \<and> [''q2'' \<mapsto> (0::real)] ''q1'' = None \<and> [''q2'' \<mapsto> (0::real)] ''q2'' \<noteq> None"
proof -
  let ?b = "[mk_row ''q1'' [Some 5], mk_row ''q2'' [None, None, None, None, None]]"
  have a: "analyze_query_resource_metrics ?b = Inr [''q2'' \<mapsto> 0]"
    by (simp add: mk_row_def row_len_def row_at_def
      analyze_query_resource_metrics_def resource_score_def norm_term_def)
  from resource_scores_emitted [OF a, of "''q1''"]
  have "[''q2'' \<mapsto> (0::real)] ''q1'' = None"
    by (simp add: mk_row_def row_len_def)
  moreover from resource_scores_emitted [OF a, of "''q2''"]
  have "[''q2'' \<mapsto> (0::real)] ''q2'' \<noteq> None"
    by (simp add: mk_row_def row_len_def)
  ultimately show ?thesis using a by blast
qed

section \<open>The performance correlator\<close>

lemma dom_add_table: "dom (add_table t cols table pm) = insert table (dom pm)"
  by (simp add: add_table_def Let_def)

lemma dom_fold_add_table: "dom (fold (add_table t cols) tbls pm) = dom pm \<union> set tbls"
  by (induction tbls arbitrary: pm) (auto simp: dom_add_table)

lemma dom_ensure_table: "dom (ensure_table pm table) = insert table (dom pm)"
  by (auto simp: ensure_table_def split: option.splits)

lemma dom_perf_row:
  "dom (perf_row parse_one cur row pm) \<subseteq> dom pm \<union> set (row_tables parse_one cur row)"
proof (cases "execution_time_ms cur (row_query_id row)")
  case Raises
  then show ?thesis by (simp add: perf_row_def)
next
  case NoRow
  then show ?thesis by (simp add: perf_row_def)
next
  case (Row result0)
  show ?thesis
  proof (cases "parse_one (row_query row)")
    case None
    with Row show ?thesis by (simp add: perf_row_def)
  next
    case (Some parsed)
    show ?thesis
    proof (cases result0)
      case None
      with Row Some show ?thesis
        by (cases "find_all ''Table'' parsed")
           (auto simp: perf_row_def row_tables_def dom_ensure_table)
    next
      case (Some t)
      with Row \<open>parse_one (row_query row) = Some parsed\<close> show ?thesis
        by (simp add: perf_row_def row_tables_def dom_fold_add_table)
    qed
  qed
qed

lemma dom_fold_perf_row:
  "dom (fold (perf_row parse_one cur) rows pm) \<subseteq> dom pm \<union> set (processed_tables parse_one cur rows)"
proof (induction rows arbitrary: pm)
  case Nil
  then show ?case by (simp add: processed_tables_def)
next
  case (Cons row rows)
  have "dom (fold (perf_row parse_one cur) rows (perf_row parse_one cur row pm))
      \<subseteq> dom (perf_row parse_one cur row pm) \<union> set (processed_tables parse_one cur rows)"
    by (rule Cons.IH)
  also have "\<dots> \<subseteq> (dom pm \<union> set (row_tables parse_one cur row))
      \<union> set (processed_tables parse_one cur rows)"
    using dom_perf_row [of parse_one cur row pm] by blast
  also have "\<dots> = dom pm \<union> set (processed_tables parse_one cur (row # rows))"
    by (auto simp: processed_tables_def)
  finally show ?case by simp
qed

lemma dom_analyze_query_performance:
  "dom (analyze_query_performance parse_one cur view_data query_log_data)
     \<subseteq> set (processed_tables parse_one cur query_log_data)"
  using dom_fold_perf_row [of parse_one cur query_log_data Map.empty]
  by (simp add: analyze_query_performance_def)

text \<open>
  C3. \<open>analyze_query_performance\<close> keys its map by the table names parsed from the
  log rows it processed, and \<open>calculate_partition_score\<close> looks the bonus up under the
  name of the view. So for every view whose fully qualified name is not among the
  table names parsed from the processed rows, the map has no entry for the view and
  the score is the base weight plus the cardinality bonus: the performance bonus is 0.
\<close>

theorem performance_bonus_absent:
  assumes "view \<notin> set (processed_tables parse_one cur query_log_data)"
  shows "analyze_query_performance parse_one cur view_data query_log_data view = None
     \<and> calculate_partition_score column view cardinality_stats
         (analyze_query_performance parse_one cur view_data query_log_data) global_stats
       = real_of_int (base_weight global_stats column)
         + (case (case cardinality_stats view of None \<Rightarrow> None | Some vs \<Rightarrow> vs column) of
              None \<Rightarrow> 0
            | Some c \<Rightarrow>
                if c < 10 then 5 else if c < 100 then 10 else if c < 1000 then 8
                else if c < 10000 then 5 else 1)"
proof -
  let ?pm = "analyze_query_performance parse_one cur view_data query_log_data"
  from assms dom_analyze_query_performance [of parse_one cur view_data query_log_data]
  have "view \<notin> dom ?pm" by blast
  then have n: "?pm view = None" by blast
  then show ?thesis
    by (simp add: calculate_partition_score_def split: option.splits)
qed

theorem performance_bonus_absent_witness:
  "''db.sales'' \<notin> set (processed_tables sales_parser demo_cursor
        [(mk_row ''q1'' [])\<lparr>row_query := sales_select\<rparr>])
   \<and> map_option pe_execution_time
        (analyze_query_performance sales_parser demo_cursor []
           [(mk_row ''q1'' [])\<lparr>row_query := sales_select\<rparr>] ''orders'') = Some 2000
   \<and> calculate_partition_score ''region'' ''db.sales'' [''db.sales'' \<mapsto> [''region'' \<mapsto> 50]]
        (analyze_query_performance sales_parser demo_cursor []
           [(mk_row ''q1'' [])\<lparr>row_query := sales_select\<rparr>])
        [(''region'', 3)] = 13"
proof -
  let ?rows = "[(mk_row ''q1'' [])\<lparr>row_query := sales_select\<rparr>]"
  have t: "processed_tables sales_parser demo_cursor ?rows = [''orders'', ''regions'']"
    by (simp add: processed_tables_def row_tables_def demo_cursor_def mk_row_def
        sales_parser_def sales_tree_def table_node_def column_node_def find_all_def)
  then have a: "''db.sales'' \<notin> set (processed_tables sales_parser demo_cursor ?rows)"
    by simp
  have b: "map_option pe_execution_time
        (analyze_query_performance sales_parser demo_cursor [] ?rows ''orders'') = Some 2000"
    by (simp add: analyze_query_performance_def perf_row_def demo_cursor_def mk_row_def
        sales_parser_def sales_tree_def table_node_def column_node_def find_all_def
        add_table_def get_or_def new_entry_def)
  from performance_bonus_absent [OF a, of "[]" "''region''"
      "[''db.sales'' \<mapsto> [''region'' \<mapsto> 50]]" "[(''region'', 3)]"]
  have "calculate_partition_score ''region'' ''db.sales'' [''db.sales'' \<mapsto> [''region'' \<mapsto> 50]]
        (analyze_query_performance sales_parser demo_cursor [] ?rows) [(''region'', 3)] = 13"
    by (simp add: base_weight_def)
  with a b show ?thesis by blast
qed

section \<open>The usage aggregator\<close>

lemma extract_sales_ddl: "extract_select_statement sales_ddl = Some sales_select"
  by (simp add: extract_select_statement_def sales_ddl_def sales_select_def upper_def
      upper_char_def strip_def)

lemma sales_select_nonempty: "sales_select \<noteq> []"
  by (simp add: sales_select_def)

lemma sales_tree_usage:
  "map table_entry (find_all ''Table'' sales_tree) = [''orders AS o'', ''regions AS r'']"
  "join_column_names sales_tree = [''region'', ''region'']"
  "where_column_names sales_tree = [''amount'']"
  by (simp_all add: sales_tree_def table_node_def column_node_def find_all_def table_entry_def
      args_get_def join_column_names_def where_column_names_def)

lemma parse_sales:
  assumes "parse_one sales_select = Some sales_tree"
  shows "parse_underlying_query parse_one sales_ddl =
     Some \<lparr>tables = [''orders AS o'', ''regions AS r''],
           join_columns = [(''region'', 2)],
           where_columns = [(''amount'', 1)]\<rparr>"
  by (simp add: parse_underlying_query_def extract_sales_ddl sales_select_nonempty assms
      sales_tree_usage Counter_def counter_add_def get_or_def)

lemma sales_ddl_nonempty: "sales_ddl \<noteq> []"
  by (simp add: sales_ddl_def)

lemma aggregate_sales:
  assumes "parse_one sales_select = Some sales_tree"
  shows "aggregate_column_usage parse_one [sales_view] [] =
     [(''region'', 3), (''order_date'', 1), (''amount'', 1)]"
  by (simp add: aggregate_column_usage_def sales_view_def view_emissions_def
      parse_sales [of parse_one, OF assms] sales_ddl_nonempty Counter_def counter_add_def get_or_def
      sort_values_desc_def eval_nat_numeral)

lemma sales_parser_select: "sales_parser sales_select = Some sales_tree"
  by (simp add: sales_parser_def)

text \<open>
  C1 as stated: for the view \<open>db.sales\<close> and no query logs, \<open>join_columns\<close> is
  \<open>{region: 1}\<close> and the frequency of \<open>region\<close> is 2. The ON condition
  \<open>o.region=r.region\<close> holds two column references named \<open>region\<close>, and each is
  counted: \<open>join_columns\<close> is \<open>{region: 2}\<close> and the frequency of \<open>region\<close> is 3.
\<close>

theorem sales_join_count_counterexample:
  "map_option join_columns (parse_underlying_query sales_parser sales_ddl)
     = Some [(''region'', 2)]
   \<and> map_of (aggregate_column_usage sales_parser [sales_view] []) ''region'' = Some 3"
  by (simp add: parse_sales [of sales_parser, OF sales_parser_select]
      aggregate_sales [of sales_parser, OF sales_parser_select])

text \<open>
  C1, amended: for the view \<open>db.sales\<close> with the columns order_date, region and
  amount, query count 1 and the DDL of the example, and no query logs, with any parser
  that returns the tree of the select text, \<open>parse_underlying_query\<close> returns the
  tables \<open>orders AS o\<close> and \<open>regions AS r\<close>, \<open>join_columns = {region: 2}\<close> (one count
  for each side of the ON condition) and \<open>where_columns = {amount: 1}\<close>; and the
  frequency table is region 3 (base and two join references), order_date 1 and
  amount 1: the WHERE clause adds nothing to amount.
\<close>

theorem sales_usage_frequencies:
  assumes "parse_one sales_select = Some sales_tree"
  shows "extract_select_statement sales_ddl = Some sales_select
     \<and> parse_underlying_query parse_one sales_ddl =
         Some \<lparr>tables = [''orders AS o'', ''regions AS r''],
               join_columns = [(''region'', 2)],
               where_columns = [(''amount'', 1)]\<rparr>
     \<and> aggregate_column_usage parse_one [sales_view] [] =
         [(''region'', 3), (''order_date'', 1), (''amount'', 1)]"
  using parse_sales [of parse_one, OF assms] aggregate_sales [of parse_one, OF assms]
    extract_sales_ddl
  by simp

theorem sales_usage_frequencies_witness:
  "sales_parser sales_select = Some sales_tree
   \<and> map_of (aggregate_column_usage sales_parser [sales_view] []) ''order_date'' = Some 1
   \<and> map_of (aggregate_column_usage sales_parser [sales_view] []) ''amount'' = Some 1
   \<and> map_option where_columns (parse_underlying_query sales_parser sales_ddl)
       = Some [(''amount'', 1)]"
  using sales_usage_frequencies [of sales_parser, OF sales_parser_select] sales_parser_select
  by simp

subsection \<open>Counters\<close>








subsection \<open>Permuted inputs\<close>










section \<open>The script generator\<close>











end
